theory Spec2Isabelle
  imports Main
begin

section \<open>Values of the host language\<close>

text \<open>
  The envelope of \<^verbatim>\<open>src/index.js\<close> stores and receives JavaScript values. The
  model covers \<^verbatim>\<open>undefined\<close>, \<^verbatim>\<open>null\<close>, booleans, numbers, strings over 8-bit
  characters and plain objects: an object is the list of its own enumerable
  properties in the order \<^verbatim>\<open>Object.keys\<close> lists them. The numbers are the
  integers and four numbers that JSON cannot write: \<^verbatim>\<open>NaN\<close>,
  \<^verbatim>\<open>Infinity\<close>, \<^verbatim>\<open>-Infinity\<close> and the negative zero \<^verbatim>\<open>-0\<close>.
  Fractions, arrays, functions, accessor properties and replaced prototypes are
  outside the model.
\<close>

datatype special_number = NaN | PosInfinity | NegInfinity | NegZero

datatype jsval =
    JUndefined
  | JNull
  | JBool bool
  | JNum int
  | JSpecial special_number
  | JStr string
  | JObj "(string \<times> jsval) list"

text \<open>
  Every \<^verbatim>\<open>throw\<close> of the source and every exception of the host that the source
  can run into is a value. The source throws plain \<^verbatim>\<open>Error\<close> objects told apart
  by their message; the constructor names follow the specification's error kinds:
  \<^item> \<open>InvalidInputKind\<close>: \<^verbatim>\<open>Must provide message as json or url-encoded data\<close>
  \<^item> \<open>MissingService\<close>: \<^verbatim>\<open>Must provide Earth API instance\<close>
  \<^item> \<open>MissingSignature\<close>: \<^verbatim>\<open>Missing required 'sig' param\<close>
  \<^item> \<open>VerificationFailed\<close>: \<^verbatim>\<open>Failed to get alias\<close>
  \<^item> \<open>AuthorMismatch\<close>: \<^verbatim>\<open>Alias linked to address does not match alias in _params_\<close>
  \<^item> \<open>NoSignature\<close>: \<^verbatim>\<open>Cannot access 'uuid' for unsigned message.\<close>
  \<^item> \<open>TypeError\<close>, \<open>ReferenceError\<close>, \<open>URIError\<close>: raised by the host itself.
\<close>

datatype error =
    InvalidInputKind
  | MissingService
  | MissingSignature
  | VerificationFailed
  | AuthorMismatch
  | NoSignature
  | TypeError
  | ReferenceError
  | URIError

text \<open>The \<^verbatim>\<open>typeof\<close> operator; \<^verbatim>\<open>typeof null\<close> is \<^verbatim>\<open>'object'\<close>.\<close>

fun js_typeof :: "jsval \<Rightarrow> string" where
  "js_typeof JUndefined = ''undefined''"
| "js_typeof JNull = ''object''"
| "js_typeof (JBool b) = ''boolean''"
| "js_typeof (JNum n) = ''number''"
| "js_typeof (JSpecial x) = ''number''"
| "js_typeof (JStr s) = ''string''"
| "js_typeof (JObj ps) = ''object''"

text \<open>
  Truthiness, as tested by \<^verbatim>\<open>if\<close>, \<^verbatim>\<open>?:\<close>, \<^verbatim>\<open>&&\<close>, \<^verbatim>\<open>||\<close> and \<^verbatim>\<open>!\<close>:
  among the numbers, both zeros and \<^verbatim>\<open>NaN\<close> are falsy.
\<close>

fun truthy :: "jsval \<Rightarrow> bool" where
  "truthy JUndefined = False"
| "truthy JNull = False"
| "truthy (JBool b) = b"
| "truthy (JNum n) = (n \<noteq> 0)"
| "truthy (JSpecial x) = (x = PosInfinity \<or> x = NegInfinity)"
| "truthy (JStr s) = (s \<noteq> [])"
| "truthy (JObj ps) = True"

text \<open>
  Strict inequality \<^verbatim>\<open>!==\<close>. \<^verbatim>\<open>NaN\<close> differs from every value, itself
  included, and the two zeros are equal. On the other primitive values it compares
  the values; the model identifies an object with its contents, so two objects are
  told apart by their contents and not by their identity.
\<close>

fun normal_zero :: "jsval \<Rightarrow> jsval" where
  "normal_zero (JSpecial NegZero) = JNum 0"
| "normal_zero v = v"

definition strict_neq :: "jsval \<Rightarrow> jsval \<Rightarrow> bool" where
  "strict_neq a b =
     (if a = JSpecial NaN then True
      else if b = JSpecial NaN then True
      else normal_zero a \<noteq> normal_zero b)"

subsection \<open>Decimal numerals and array indices\<close>

definition digit_char :: "nat \<Rightarrow> char" where
  "digit_char d = ''0123456789'' ! d"

function nat_text :: "nat \<Rightarrow> string" where
  "nat_text n = (if n < 10 then [digit_char n] else nat_text (n div 10) @ [digit_char (n mod 10)])"
  by pat_completeness auto
termination
  by (relation "measure id") auto

declare nat_text.simps [simp del]

text \<open>
  The decimal text of an integer, as \<^verbatim>\<open>JSON.stringify\<close> writes a number that is
  an integer of magnitude below \<open>10^21\<close>; beyond that the host writes an exponent.
\<close>

definition int_text :: "int \<Rightarrow> string" where
  "int_text i = (if i < 0 then CHR ''-'' # nat_text (nat (- i)) else nat_text (nat i))"

definition is_digit :: "char \<Rightarrow> bool" where
  "is_digit c = (c \<in> set ''0123456789'')"

definition digit_val :: "char \<Rightarrow> int" where
  "digit_val c = of_char c - 48"

definition dec_val :: "string \<Rightarrow> int" where
  "dec_val s = foldl (\<lambda>a c. 10 * a + digit_val c) 0 s"

text \<open>
  A property name is an array index when it is the canonical decimal numeral of an
  integer from 0 to \<open>2^32 - 2\<close>. An object lists such names first, in ascending
  numeric order, and its other names after them in the order of their creation.
\<close>

definition array_index :: "string \<Rightarrow> int option" where
  "array_index s =
     (if s = [] then None
      else if \<not> list_all is_digit s then None
      else if hd s = CHR ''0'' \<and> s \<noteq> ''0'' then None
      else if dec_val s \<le> 4294967294 then Some (dec_val s)
      else None)"

subsection \<open>Own properties\<close>

fun own_get :: "(string \<times> jsval) list \<Rightarrow> string \<Rightarrow> jsval" where
  "own_get [] k = JUndefined"
| "own_get ((k', v) # ps) k = (if k' = k then v else own_get ps k)"

fun has_own :: "(string \<times> jsval) list \<Rightarrow> string \<Rightarrow> bool" where
  "has_own [] k = False"
| "has_own ((k', v) # ps) k = (if k' = k then True else has_own ps k)"

fun own_update :: "(string \<times> jsval) list \<Rightarrow> string \<Rightarrow> jsval \<Rightarrow> (string \<times> jsval) list" where
  "own_update [] k v = []"
| "own_update ((k', v') # ps) k v = (if k' = k then (k, v) # ps else (k', v') # own_update ps k v)"

fun own_insert_index :: "int \<Rightarrow> string \<Rightarrow> jsval \<Rightarrow> (string \<times> jsval) list \<Rightarrow> (string \<times> jsval) list" where
  "own_insert_index i k v [] = [(k, v)]"
| "own_insert_index i k v ((k', v') # ps) =
     (case array_index k' of
        None \<Rightarrow> (k, v) # (k', v') # ps
      | Some j \<Rightarrow> if j < i then (k', v') # own_insert_index i k v ps else (k, v) # (k', v') # ps)"

text \<open>Creating or overwriting an own data property.\<close>

definition own_define :: "(string \<times> jsval) list \<Rightarrow> string \<Rightarrow> jsval \<Rightarrow> (string \<times> jsval) list" where
  "own_define ps k v =
     (if has_own ps k then own_update ps k v
      else case array_index k of
             None \<Rightarrow> ps @ [(k, v)]
           | Some i \<Rightarrow> own_insert_index i k v ps)"

text \<open>
  \<^verbatim>\<open>Object.keys(v)\<close>: a \<^verbatim>\<open>TypeError\<close> on \<^verbatim>\<open>undefined\<close> and \<^verbatim>\<open>null\<close>, the
  indices of a string, nothing for a boolean or a number, the own property names of
  an object.
\<close>

fun Object_keys :: "jsval \<Rightarrow> error + string list" where
  "Object_keys JUndefined = Inl TypeError"
| "Object_keys JNull = Inl TypeError"
| "Object_keys (JBool b) = Inr []"
| "Object_keys (JNum n) = Inr []"
| "Object_keys (JSpecial x) = Inr []"
| "Object_keys (JStr s) = Inr (map nat_text [0..<length s])"
| "Object_keys (JObj ps) = Inr (map fst ps)"

text \<open>
  Reading a property, \<^verbatim>\<open>v[k]\<close> or \<^verbatim>\<open>v.k\<close>: a \<^verbatim>\<open>TypeError\<close> on
  \<^verbatim>\<open>undefined\<close> and \<^verbatim>\<open>null\<close>. The names the source reads are the fixed names
  \<^verbatim>\<open>_signed_\<close>, \<^verbatim>\<open>_params_\<close>, \<^verbatim>\<open>sig\<close>, \<^verbatim>\<open>alias\<close>, \<^verbatim>\<open>address\<close>
  and the names \<^verbatim>\<open>Object.keys\<close> returned; for these the built-in prototypes hold
  nothing, and the value is the own property or \<^verbatim>\<open>undefined\<close>.
\<close>

fun js_get :: "jsval \<Rightarrow> string \<Rightarrow> error + jsval" where
  "js_get JUndefined k = Inl TypeError"
| "js_get JNull k = Inl TypeError"
| "js_get (JBool b) k = Inr JUndefined"
| "js_get (JNum n) k = Inr JUndefined"
| "js_get (JSpecial x) k = Inr JUndefined"
| "js_get (JStr s) k =
     Inr (if k = ''length'' then JNum (int (length s))
          else case array_index k of
                 None \<Rightarrow> JUndefined
               | Some i \<Rightarrow> if i < int (length s) then JStr [s ! nat i] else JUndefined)"
| "js_get (JObj ps) k = Inr (own_get ps k)"

text \<open>
  Assigning a property, \<^verbatim>\<open>v[k] = w\<close>, in strict mode (a class body is strict
  code). On a primitive value the assignment throws a \<^verbatim>\<open>TypeError\<close>. The name
  \<^verbatim>\<open>__proto__\<close>, when it is not an own property, reaches the accessor of
  \<^verbatim>\<open>Object.prototype\<close>, which creates no property: it ignores a primitive value
  and replaces the prototype for an object or \<^verbatim>\<open>null\<close>, which leaves the own
  properties as they are (the replaced prototype is not modelled).
\<close>

fun js_set :: "jsval \<Rightarrow> string \<Rightarrow> jsval \<Rightarrow> error + jsval" where
  "js_set JUndefined k w = Inl TypeError"
| "js_set JNull k w = Inl TypeError"
| "js_set (JObj ps) k w =
     Inr (JObj (if has_own ps k then own_update ps k w
                else if k = ''__proto__'' then ps
                else own_define ps k w))"
| "js_set v k w = (if k = ''__proto__'' then Inr v else Inl TypeError)"

subsection \<open>Strings\<close>

text \<open>
  \<^verbatim>\<open>s.indexOf(p)\<close>: the position of the first occurrence of \<open>p\<close> in \<open>s\<close>,
  or \<open>-1\<close>.
\<close>

fun indexOf :: "string \<Rightarrow> string \<Rightarrow> int" where
  "indexOf [] p = (if p = [] then 0 else - 1)"
| "indexOf (c # cs) p =
     (if take (length p) (c # cs) = p then 0
      else (let r = indexOf cs p in if r = - 1 then - 1 else r + 1))"

text \<open>\<^verbatim>\<open>s.slice(i)\<close> and \<^verbatim>\<open>s.substring(i)\<close> for an index \<open>i \<ge> 0\<close>.\<close>

definition substring :: "string \<Rightarrow> nat \<Rightarrow> string" where
  "substring s i = drop i s"

text \<open>\<^verbatim>\<open>s.split(sep)\<close> for a separator of one character: never an empty list.\<close>

fun split_on :: "char \<Rightarrow> string \<Rightarrow> string list" where
  "split_on sep [] = [[]]"
| "split_on sep (c # cs) =
     (if c = sep then [] # split_on sep cs
      else (case split_on sep cs of
              [] \<Rightarrow> [[c]]
            | w # ws \<Rightarrow> (c # w) # ws))"

text \<open>
  An element of the list \<^verbatim>\<open>kvp\<close> as \<^verbatim>\<open>decodeURIComponent\<close> receives it: an
  absent element is \<^verbatim>\<open>undefined\<close>, which the function turns into the string
  \<^verbatim>\<open>undefined\<close> before decoding.
\<close>

definition element_text :: "string list \<Rightarrow> nat \<Rightarrow> string" where
  "element_text kvp i = (if i < length kvp then kvp ! i else ''undefined'')"

subsection \<open>JSON\<close>

definition hex_char :: "nat \<Rightarrow> char" where
  "hex_char d = ''0123456789abcdef'' ! d"

text \<open>The escape of one character inside a JSON string literal.\<close>

definition json_escape :: "char \<Rightarrow> string" where
  "json_escape c =
     (let n = (of_char c :: nat) in
      if n = 34 then [CHR 0x5C, CHR 0x22]
      else if n = 92 then [CHR 0x5C, CHR 0x5C]
      else if n = 8 then [CHR 0x5C, CHR ''b'']
      else if n = 9 then [CHR 0x5C, CHR ''t'']
      else if n = 10 then [CHR 0x5C, CHR ''n'']
      else if n = 12 then [CHR 0x5C, CHR ''f'']
      else if n = 13 then [CHR 0x5C, CHR ''r'']
      else if n < 32 then [CHR 0x5C, CHR ''u'', CHR ''0'', CHR ''0'', hex_char (n div 16), hex_char (n mod 16)]
      else [c])"

definition json_quote :: "string \<Rightarrow> string" where
  "json_quote s = CHR 0x22 # concat (map json_escape s) @ [CHR 0x22]"

definition join_comma :: "string list \<Rightarrow> string" where
  "join_comma ws = (case ws of [] \<Rightarrow> [] | w # ws' \<Rightarrow> w @ concat (map (\<lambda>x. CHR '','' # x) ws'))"

text \<open>
  The text \<^verbatim>\<open>JSON.stringify\<close> produces, \<open>None\<close> where it produces
  \<^verbatim>\<open>undefined\<close>: for the value \<^verbatim>\<open>undefined\<close> itself. A property whose value is
  \<^verbatim>\<open>undefined\<close> is left out of the text of its object. The text of \<^verbatim>\<open>NaN\<close>
  and of the infinities is \<^verbatim>\<open>null\<close>, the text of the negative zero is \<^verbatim>\<open>0\<close>.
\<close>

fun json_text :: "jsval \<Rightarrow> string option"
  and json_members :: "(string \<times> jsval) list \<Rightarrow> string list" where
  "json_text JUndefined = None"
| "json_text JNull = Some ''null''"
| "json_text (JBool b) = Some (if b then ''true'' else ''false'')"
| "json_text (JNum n) = Some (int_text n)"
| "json_text (JSpecial x) = Some (if x = NegZero then ''0'' else ''null'')"
| "json_text (JStr s) = Some (json_quote s)"
| "json_text (JObj ps) = Some (CHR ''{'' # join_comma (json_members ps) @ ''}'')"
| "json_members [] = []"
| "json_members ((k, v) # ps) =
     (case json_text v of
        None \<Rightarrow> json_members ps
      | Some t \<Rightarrow> (json_quote k @ CHR '':'' # t) # json_members ps)"

definition JSON_stringify :: "jsval \<Rightarrow> jsval" where
  "JSON_stringify v = (case json_text v of None \<Rightarrow> JUndefined | Some t \<Rightarrow> JStr t)"

text \<open>
  \<^verbatim>\<open>JSON.parse(JSON.stringify(v))\<close> as a function on values: the value read
  back from the text of \<open>v\<close>, \<open>None\<close> where there is no text. What is read back
  for \<^verbatim>\<open>NaN\<close> and the infinities is \<^verbatim>\<open>null\<close>, and for the negative zero the
  zero.
\<close>

fun json_copy :: "jsval \<Rightarrow> jsval option"
  and json_copy_members :: "(string \<times> jsval) list \<Rightarrow> (string \<times> jsval) list" where
  "json_copy JUndefined = None"
| "json_copy JNull = Some JNull"
| "json_copy (JBool b) = Some (JBool b)"
| "json_copy (JNum n) = Some (JNum n)"
| "json_copy (JSpecial x) = Some (if x = NegZero then JNum 0 else JNull)"
| "json_copy (JStr s) = Some (JStr s)"
| "json_copy (JObj ps) = Some (JObj (json_copy_members ps))"
| "json_copy_members [] = []"
| "json_copy_members ((k, v) # ps) =
     (case json_copy v of
        None \<Rightarrow> json_copy_members ps
      | Some w \<Rightarrow> (k, w) # json_copy_members ps)"

section \<open>The envelope\<close>

text \<open>
  The state of a \<^verbatim>\<open>Message\<close>: its fields \<^verbatim>\<open>_signed_\<close>, \<^verbatim>\<open>_params_\<close> and
  \<^verbatim>\<open>verified\<close>. The two buckets are values of their own: an input whose
  \<^verbatim>\<open>_signed_\<close> and \<^verbatim>\<open>_params_\<close> are one and the same object is outside the
  model.
\<close>

record message =
  signed_bucket :: jsval
  params_bucket :: jsval
  verified :: bool

text \<open>
  A method call ends by returning, or by throwing; in both cases the envelope is left
  in a state, which the outcome carries.
\<close>

datatype outcome = Return message | Throw error message

subsection \<open>Construction\<close>

text \<open>
  Lines 20 to 24: the decoded key is tested against each bucket name of
  \<^verbatim>\<open>payload\<close> and stored in the bucket under \<^verbatim>\<open>key.substring(prefix.length)\<close>.
  The bucket is mutated in place; on values, the changed bucket is put back under its
  name.
\<close>

fun route_key :: "string list \<Rightarrow> string \<Rightarrow> string \<Rightarrow> jsval \<Rightarrow> error + jsval" where
  "route_key [] key val payload = Inr payload"
| "route_key (prefix # prefixes) key val payload =
     (if indexOf key prefix \<noteq> - 1 then
        (case js_get payload prefix of
           Inl e \<Rightarrow> Inl e
         | Inr bucket \<Rightarrow>
             (case js_set bucket (substring key (length prefix)) (JStr val) of
                Inl e \<Rightarrow> Inl e
              | Inr bucket' \<Rightarrow>
                  (case js_set payload prefix bucket' of
                     Inl e \<Rightarrow> Inl e
                   | Inr payload' \<Rightarrow> route_key prefixes key val payload')))
      else route_key prefixes key val payload)"

text \<open>
  Lines 16 to 25, the loop over the components of the query. The host's
  \<^verbatim>\<open>decodeURIComponent\<close> is the parameter \<open>dec\<close>; it throws a \<^verbatim>\<open>URIError\<close> on
  a malformed escape sequence.
\<close>

fun parse_components :: "(string \<Rightarrow> error + string) \<Rightarrow> string list \<Rightarrow> jsval \<Rightarrow> error + jsval" where
  "parse_components dec [] payload = Inr payload"
| "parse_components dec (c # cs) payload =
     (let kvp = split_on CHR ''='' c in
      case dec (element_text kvp 0) of
        Inl e \<Rightarrow> Inl e
      | Inr key \<Rightarrow>
          (case dec (element_text kvp 1) of
             Inl e \<Rightarrow> Inl e
           | Inr val \<Rightarrow>
               (case Object_keys payload of
                  Inl e \<Rightarrow> Inl e
                | Inr prefixes \<Rightarrow>
                    (case route_key prefixes key val payload of
                       Inl e \<Rightarrow> Inl e
                     | Inr payload' \<Rightarrow> parse_components dec cs payload'))))"

text \<open>Lines 12 to 15: the part of the string after the later of the first \<^verbatim>\<open>?\<close> and the first \<^verbatim>\<open>#\<close>.\<close>

definition query_part :: "string \<Rightarrow> string" where
  "query_part data =
     (let i0 = indexOf data ''?'';
          i1 = indexOf data ''#'';
          i = (if i0 > i1 then i0 else i1)
      in if i > - 1 then substring data (nat (i + 1)) else data)"

definition parse_uri :: "(string \<Rightarrow> error + string) \<Rightarrow> string \<Rightarrow> error + jsval" where
  "parse_uri dec data =
     parse_components dec (split_on CHR ''&'' (query_part data))
       (JObj [(''_signed_'', JObj []), (''_params_'', JObj [])])"

text \<open>Lines 38 to 43: every value of the signed bucket that is not a string is replaced by its JSON text.\<close>

fun stringify_values :: "string list \<Rightarrow> jsval \<Rightarrow> error + jsval" where
  "stringify_values [] sg = Inr sg"
| "stringify_values (key # keys) sg =
     (case js_get sg key of
        Inl e \<Rightarrow> Inl e
      | Inr val \<Rightarrow>
          if js_typeof val \<noteq> ''string'' then
            (case js_set sg key (JSON_stringify val) of
               Inl e \<Rightarrow> Inl e
             | Inr sg' \<Rightarrow> stringify_values keys sg')
          else stringify_values keys sg)"

fun string_of :: "jsval \<Rightarrow> string" where
  "string_of (JStr s) = s"
| "string_of v = []"

text \<open>
  Lines 7 to 30. The variable \<^verbatim>\<open>payload\<close> is declared without a value, and the
  third test of the chain reads \<^verbatim>\<open>typeof payload\<close>, not \<^verbatim>\<open>typeof data\<close>.
\<close>

definition initial_payload :: "(string \<Rightarrow> error + string) \<Rightarrow> jsval \<Rightarrow> error + jsval" where
  "initial_payload dec data =
     (let payload = JUndefined in
      if js_typeof data = ''object'' then
        (case js_get data ''_signed_'' of
           Inl e \<Rightarrow> Inl e
         | Inr s \<Rightarrow> Inr (if truthy s then data else JObj [(''_signed_'', data)]))
      else if js_typeof data = ''string'' then parse_uri dec (string_of data)
      else if js_typeof payload = ''undefined'' then Inr (JObj [])
      else Inl InvalidInputKind)"

text \<open>The constructor: lines 5 to 46.\<close>

definition Message :: "(string \<Rightarrow> error + string) \<Rightarrow> jsval \<Rightarrow> error + message" where
  "Message dec data =
     (case initial_payload dec data of
        Inl e \<Rightarrow> Inl e
      | Inr payload \<Rightarrow>
          (case js_get payload ''_signed_'' of
             Inl e \<Rightarrow> Inl e
           | Inr ps \<Rightarrow>
               (case js_get payload ''_params_'' of
                  Inl e \<Rightarrow> Inl e
                | Inr pp \<Rightarrow>
                    (let sg = (if truthy ps then ps else JObj []);
                         pr = (if truthy pp then pp else JObj [])
                     in case Object_keys sg of
                          Inl e \<Rightarrow> Inl e
                        | Inr keys \<Rightarrow>
                            (case stringify_values keys sg of
                               Inl e \<Rightarrow> Inl e
                             | Inr sg' \<Rightarrow>
                                 Inr \<lparr>signed_bucket = sg', params_bucket = pr, verified = False\<rparr>)))))"

text \<open>
  A decoder for running the constructor on concrete strings: the identity on a string
  without \<^verbatim>\<open>%\<close>, as \<^verbatim>\<open>decodeURIComponent\<close> is. On any other string it reports a
  \<^verbatim>\<open>URIError\<close>, which the host does for malformed escapes only; no statement below
  applies it to such a string.
\<close>

definition decode_plain :: "string \<Rightarrow> error + string" where
  "decode_plain s = (if CHR ''%'' \<in> set s then Inl URIError else Inr s)"

subsection \<open>Accessors\<close>

text \<open>\<^verbatim>\<open>get signature\<close>, lines 216 to 218.\<close>

definition signature :: "message \<Rightarrow> error + jsval" where
  "signature this = js_get (params_bucket this) ''sig''"

text \<open>\<^verbatim>\<open>get keys\<close>, lines 221 to 223.\<close>

definition keys :: "message \<Rightarrow> error + string list" where
  "keys this = Object_keys (signed_bucket this)"

text \<open>
  \<^verbatim>\<open>get uuid\<close>, lines 185 to 198. \<^verbatim>\<open>utils.getMessageUUID\<close> belongs to the package
  \<^verbatim>\<open>@satellite-earth/dev-utils\<close> and is the parameter \<open>getMessageUUID\<close>.
\<close>

definition uuid :: "(message \<Rightarrow> error + string) \<Rightarrow> message \<Rightarrow> error + string" where
  "uuid getMessageUUID this =
     (case signature this of
        Inl e \<Rightarrow> Inl e
      | Inr s \<Rightarrow> if truthy s then getMessageUUID this else Inl NoSignature)"

text \<open>
  \<^verbatim>\<open>compare\<close>, lines 163 to 167: both identities are read once into \<^verbatim>\<open>a\<close> and
  \<^verbatim>\<open>b\<close> and once more for the comparison. \<^verbatim>\<open>localeCompare\<close> is the host's and is
  the parameter \<open>localeCompare\<close>.
\<close>

definition compare ::
  "(string \<Rightarrow> string \<Rightarrow> int) \<Rightarrow> (message \<Rightarrow> error + string) \<Rightarrow> message \<Rightarrow> message \<Rightarrow> error + int" where
  "compare localeCompare getMessageUUID this that =
     (case uuid getMessageUUID this of
        Inl e \<Rightarrow> Inl e
      | Inr a \<Rightarrow>
          (case uuid getMessageUUID that of
             Inl e \<Rightarrow> Inl e
           | Inr b \<Rightarrow>
               (case uuid getMessageUUID this of
                  Inl e \<Rightarrow> Inl e
                | Inr x \<Rightarrow>
                    (case uuid getMessageUUID that of
                       Inl e \<Rightarrow> Inl e
                     | Inr y \<Rightarrow> Inr (localeCompare x y)))))"

text \<open>
  \<^verbatim>\<open>get payload\<close>, lines 228 to 233, as a value: what is read back from the JSON
  text of the two buckets.
\<close>

definition payload :: "message \<Rightarrow> jsval" where
  "payload this = JObj (json_copy_members [(''_signed_'', signed_bucket this), (''_params_'', params_bucket this)])"

subsection \<open>Mutation\<close>

text \<open>\<^verbatim>\<open>clearSig\<close>, lines 157 to 160.\<close>

definition clearSig :: "message \<Rightarrow> outcome" where
  "clearSig this =
     (case js_set (params_bucket this) ''sig'' JUndefined of
        Inl e \<Rightarrow> Throw e this
      | Inr p \<Rightarrow> Return (this\<lparr>params_bucket := p, verified := False\<rparr>))"

text \<open>
  The loops of lines 142 to 144 and 152 to 154: \<^verbatim>\<open>bucket[key] = obj[key]\<close> for
  each key in turn. A throw leaves the bucket with the assignments made so far.
\<close>

fun assign_keys :: "string list \<Rightarrow> jsval \<Rightarrow> jsval \<Rightarrow> error option \<times> jsval" where
  "assign_keys [] obj bucket = (None, bucket)"
| "assign_keys (key # ks) obj bucket =
     (case js_get obj key of
        Inl e \<Rightarrow> (Some e, bucket)
      | Inr v \<Rightarrow>
          (case js_set bucket key v of
             Inl e \<Rightarrow> (Some e, bucket)
           | Inr bucket' \<Rightarrow> assign_keys ks obj bucket'))"

text \<open>\<^verbatim>\<open>addSigned\<close>, lines 147 to 155.\<close>

definition addSigned :: "jsval \<Rightarrow> message \<Rightarrow> outcome" where
  "addSigned obj this =
     (case Object_keys obj of
        Inl e \<Rightarrow> Throw e this
      | Inr ks \<Rightarrow>
          (case (if length ks > 0 then clearSig this else Return this) of
             Throw e m \<Rightarrow> Throw e m
           | Return m \<Rightarrow>
               (case assign_keys ks obj (signed_bucket m) of
                  (Some e, b) \<Rightarrow> Throw e (m\<lparr>signed_bucket := b\<rparr>)
                | (None, b) \<Rightarrow> Return (m\<lparr>signed_bucket := b\<rparr>))))"

text \<open>
  Line 140 calls \<^verbatim>\<open>clearSig()\<close>, a variable, where line 150 calls the method
  \<^verbatim>\<open>this.clearSig()\<close>. The module binds \<^verbatim>\<open>utils\<close> and \<^verbatim>\<open>Message\<close> and no
  variable \<^verbatim>\<open>clearSig\<close>, and the host has no global of that name: evaluating the
  name throws a \<^verbatim>\<open>ReferenceError\<close>, and the envelope is as it was.
\<close>

definition unbound_clearSig :: "message \<Rightarrow> outcome" where
  "unbound_clearSig this = Throw ReferenceError this"

text \<open>\<^verbatim>\<open>addParams\<close>, lines 137 to 145.\<close>

definition addParams :: "jsval \<Rightarrow> message \<Rightarrow> outcome" where
  "addParams obj this =
     (case Object_keys obj of
        Inl e \<Rightarrow> Throw e this
      | Inr ks \<Rightarrow>
          (case (if List.member ks ''alias'' \<or> List.member ks ''sig''
                 then unbound_clearSig this else Return this) of
             Throw e m \<Rightarrow> Throw e m
           | Return m \<Rightarrow>
               (case assign_keys ks obj (params_bucket m) of
                  (Some e, b) \<Rightarrow> Throw e (m\<lparr>params_bucket := b\<rparr>)
                | (None, b) \<Rightarrow> Return (m\<lparr>params_bucket := b\<rparr>))))"

text \<open>\<^verbatim>\<open>set signature\<close>, lines 178 to 181, for a string \<^verbatim>\<open>sig\<close>.\<close>

definition set_signature :: "string \<Rightarrow> message \<Rightarrow> outcome" where
  "set_signature sig this =
     (case js_set (params_bucket this) ''sig''
             (JStr (if take 2 sig = ''0x'' then substring sig 2 else sig)) of
        Inl e \<Rightarrow> Throw e this
      | Inr p \<Rightarrow> Return (this\<lparr>params_bucket := p, verified := False\<rparr>))"

subsection \<open>Verification\<close>

text \<open>
  The Earth API instance: its \<^verbatim>\<open>verifyData\<close> and \<^verbatim>\<open>verifyDataSync\<close> read the
  envelope and return an authorship value or throw (for \<^verbatim>\<open>verifyData\<close>: the
  promise it returns is fulfilled or rejected). They are taken to leave the envelope
  as it is. A missing (falsy) instance is \<open>None\<close>.
\<close>

record 'd earth =
  verifyData :: "message \<Rightarrow> 'd \<Rightarrow> error + jsval"
  verifyDataSync :: "message \<Rightarrow> jsval \<Rightarrow> 'd \<Rightarrow> error + jsval"

text \<open>
  Lines 95 and 98 to 99, and again lines 130 and 133 to 134: the alias of the
  authorship is stored in the params bucket, and the envelope is verified and returned.
\<close>

definition store_alias :: "jsval \<Rightarrow> message \<Rightarrow> outcome" where
  "store_alias authorship this =
     (case js_get authorship ''alias'' of
        Inl e \<Rightarrow> Throw e this
      | Inr a \<Rightarrow>
          (case js_set (params_bucket this) ''alias'' a of
             Inl e \<Rightarrow> Throw e this
           | Inr p \<Rightarrow> Return (this\<lparr>params_bucket := p, verified := True\<rparr>)))"

text \<open>
  Lines 89 to 99, and again lines 124 to 134: the test
  \<^verbatim>\<open>claimedAlias && claimedAlias !== authorship.alias\<close> and its two branches.
\<close>

definition reconcile :: "jsval \<Rightarrow> jsval \<Rightarrow> message \<Rightarrow> outcome" where
  "reconcile claimedAlias authorship this =
     (if truthy claimedAlias then
        (case js_get authorship ''alias'' of
           Inl e \<Rightarrow> Throw e this
         | Inr a \<Rightarrow>
             if strict_neq claimedAlias a then Throw AuthorMismatch this
             else store_alias authorship this)
      else store_alias authorship this)"

text \<open>\<^verbatim>\<open>verify\<close>, lines 69 to 100: the outcome of the promise it returns.\<close>

definition verify :: "'d earth option \<Rightarrow> 'd \<Rightarrow> message \<Rightarrow> outcome" where
  "verify earth domain this =
     (case earth of
        None \<Rightarrow> Throw MissingService this
      | Some api \<Rightarrow>
          (case js_get (params_bucket this) ''alias'' of
             Inl e \<Rightarrow> Throw e this
           | Inr claimedAlias \<Rightarrow>
               (case signature this of
                  Inl e \<Rightarrow> Throw e this
                | Inr s \<Rightarrow>
                    if \<not> truthy s then Throw MissingSignature this
                    else
                      (case verifyData api this domain of
                         Inl err \<Rightarrow> Throw VerificationFailed this
                       | Inr authorship \<Rightarrow> reconcile claimedAlias authorship this))))"

text \<open>\<^verbatim>\<open>verifySync\<close>, lines 102 to 135.\<close>

definition verifySync :: "'d earth option \<Rightarrow> jsval \<Rightarrow> 'd \<Rightarrow> message \<Rightarrow> outcome" where
  "verifySync earth blockNumber domain this =
     (case earth of
        None \<Rightarrow> Throw MissingService this
      | Some api \<Rightarrow>
          (case js_get (params_bucket this) ''alias'' of
             Inl e \<Rightarrow> Throw e this
           | Inr claimedAlias \<Rightarrow>
               (case signature this of
                  Inl e \<Rightarrow> Throw e this
                | Inr s \<Rightarrow>
                    if \<not> truthy s then Throw MissingSignature this
                    else
                      (case verifyDataSync api this blockNumber domain of
                         Inl err \<Rightarrow> Throw VerificationFailed this
                       | Inr authorship \<Rightarrow> reconcile claimedAlias authorship this))))"

text \<open>The state an outcome leaves the envelope in.\<close>

fun final_state :: "outcome \<Rightarrow> message" where
  "final_state (Return m) = m"
| "final_state (Throw e m) = m"

subsection \<open>Helpers of the package dev-utils and test doubles\<close>

text \<open>
  Modelled from the spec: \<^verbatim>\<open>utils.getMessageUUID\<close> of
  \<^verbatim>\<open>@satellite-earth/dev-utils\<close> is not among the sources. The specification
  defines the identity as the first 40 hex characters of the signature, prefix
  excluded, and the comment of lines 183 and 184 says the same.
\<close>

definition getMessageUUID :: "message \<Rightarrow> error + string" where
  "getMessageUUID m =
     (case js_get (params_bucket m) ''sig'' of
        Inr (JStr s) \<Rightarrow> Inr (take 40 (if take 2 s = ''0x'' then drop 2 s else s))
      | _ \<Rightarrow> Inl TypeError)"

text \<open>
  Modelled from the spec: the hex encoding of a label, two lower-case hex digits for
  each character. The encoding utilities (\<^verbatim>\<open>utils.utf8ToHex\<close>, \<^verbatim>\<open>utils.zcut\<close>)
  are not among the sources.
\<close>

definition hex_encoding :: "string \<Rightarrow> string" where
  "hex_encoding s =
     concat (map (\<lambda>c. [hex_char (of_char c div 16), hex_char (of_char c mod 16)]) s)"

definition is_hex :: "char \<Rightarrow> bool" where
  "is_hex c = (c \<in> set ''0123456789abcdefABCDEF'')"

text \<open>An Earth API instance that resolves every envelope to the alias \<open>a\<close>.\<close>

definition resolving :: "jsval \<Rightarrow> unit earth" where
  "resolving a =
     \<lparr>verifyData = (\<lambda>m d. Inr (JObj [(''alias'', a)])),
      verifyDataSync = (\<lambda>m b d. Inr (JObj [(''alias'', a)]))\<rparr>"

text \<open>
  The property name of the specification's wording of the routing rule: the key with
  everything up to and including the first occurrence of the prefix removed.
\<close>

definition stripped_as_claimed :: "string \<Rightarrow> string \<Rightarrow> string" where
  "stripped_as_claimed key prefix = drop (nat (indexOf key prefix) + length prefix) key"

section \<open>Objects by reference\<close>

text \<open>
  The values above are immutable trees. Whether the caller of \<^verbatim>\<open>get payload\<close> can
  reach the buckets of the envelope through what it is handed is a question about
  shared objects, and needs a store.
\<close>

text \<open>
  What a variable, a field or a property holds where objects are shared: a primitive
  value, or the address of an object.
\<close>

datatype ref_val =
    RUndefined
  | RNull
  | RBool bool
  | RNum int
  | RSpecial special_number
  | RStr string
  | RRef nat

text \<open>
  The store holds, at each address in use, the own properties of the object living
  there; the next object is created at the address \<open>length h\<close>.
\<close>

type_synonym store = "(string \<times> ref_val) list list"

text \<open>
  An envelope in the store: its fields \<^verbatim>\<open>_signed_\<close> and \<^verbatim>\<open>_params_\<close> hold
  what the constructor assigned, as a rule the addresses of two objects.
\<close>

record stored_message =
  signed_ref :: ref_val
  params_ref :: ref_val
  verified_flag :: bool

text \<open>
  The value \<^verbatim>\<open>JSON.stringify\<close> walks through when it serialises from \<open>v\<close>:
  the tree below \<open>v\<close> in the store. \<open>stk\<close> holds the objects being serialised;
  meeting one of them again is a circular structure, on which \<^verbatim>\<open>JSON.stringify\<close>
  throws a \<^verbatim>\<open>TypeError\<close>. An address outside the store does not occur in the
  host and is an error here.
\<close>

function reify :: "store \<Rightarrow> nat list \<Rightarrow> ref_val \<Rightarrow> error + jsval"
  and reify_props :: "store \<Rightarrow> nat list \<Rightarrow> (string \<times> ref_val) list \<Rightarrow> error + (string \<times> jsval) list" where
  "reify h stk RUndefined = Inr JUndefined"
| "reify h stk RNull = Inr JNull"
| "reify h stk (RBool b) = Inr (JBool b)"
| "reify h stk (RNum n) = Inr (JNum n)"
| "reify h stk (RSpecial x) = Inr (JSpecial x)"
| "reify h stk (RStr s) = Inr (JStr s)"
| "reify h stk (RRef a) =
     (if a < length h \<and> a \<notin> set stk then
        (case reify_props h (a # stk) (h ! a) of
           Inl e \<Rightarrow> Inl e
         | Inr ps \<Rightarrow> Inr (JObj ps))
      else Inl TypeError)"
| "reify_props h stk [] = Inr []"
| "reify_props h stk ((k, v) # ps) =
     (case reify h stk v of
        Inl e \<Rightarrow> Inl e
      | Inr w \<Rightarrow>
          (case reify_props h stk ps of
             Inl e \<Rightarrow> Inl e
           | Inr ws \<Rightarrow> Inr ((k, w) # ws)))"
  by pat_completeness auto
termination
proof (relation "inv_image (less_than <*lex*> less_than)
    (\<lambda>x. case x of
       Inl (h, stk, v) \<Rightarrow> (card ({..<length h} - set stk), 0)
     | Inr (h, stk, ps) \<Rightarrow> (card ({..<length h} - set stk), Suc (length ps)))", goal_cases)
  case 1
  show ?case by auto
next
  case (2 h stk a)
  then have "a \<in> {..<length h} - set stk" by simp
  then have "card ({..<length h} - set stk - {a}) < card ({..<length h} - set stk)"
    by (intro card_Diff1_less) auto
  moreover have "{..<length h} - set (a # stk) = {..<length h} - set stk - {a}" by auto
  ultimately show ?case by simp
next
  case 3
  then show ?case by simp
next
  case 4
  then show ?case by simp
qed

text \<open>
  The objects \<^verbatim>\<open>JSON.parse\<close> builds for a value: each object of the value is
  created anew, after the objects of its properties.
\<close>

fun alloc :: "jsval \<Rightarrow> store \<Rightarrow> ref_val \<times> store"
  and alloc_props :: "(string \<times> jsval) list \<Rightarrow> store \<Rightarrow> (string \<times> ref_val) list \<times> store" where
  "alloc JUndefined h = (RUndefined, h)"
| "alloc JNull h = (RNull, h)"
| "alloc (JBool b) h = (RBool b, h)"
| "alloc (JNum n) h = (RNum n, h)"
| "alloc (JSpecial x) h = (RSpecial x, h)"
| "alloc (JStr s) h = (RStr s, h)"
| "alloc (JObj ps) h =
     (case alloc_props ps h of (rs, h') \<Rightarrow> (RRef (length h'), h' @ [rs]))"
| "alloc_props [] h = ([], h)"
| "alloc_props ((k, v) # ps) h =
     (case alloc v h of (r, h1) \<Rightarrow>
        (case alloc_props ps h1 of (rs, h2) \<Rightarrow> ((k, r) # rs, h2)))"

text \<open>
  \<^verbatim>\<open>get payload\<close>, lines 228 to 233, in the store: the text of the two buckets is
  produced and read back, and the result is the address of a new object together
  with the store that holds it. The text itself is represented by the value
  \<^const>\<open>payload\<close> reads back from it.
\<close>

definition payload_in :: "store \<Rightarrow> stored_message \<Rightarrow> error + ref_val \<times> store" where
  "payload_in h this =
     (case reify h [] (signed_ref this) of
        Inl e \<Rightarrow> Inl e
      | Inr s \<Rightarrow>
          (case reify h [] (params_ref this) of
             Inl e \<Rightarrow> Inl e
           | Inr p \<Rightarrow>
               Inr (alloc (payload \<lparr>signed_bucket = s, params_bucket = p,
                                     verified = verified_flag this\<rparr>) h)))"

text \<open>The objects that can be reached from a value through properties.\<close>

inductive reaches :: "store \<Rightarrow> ref_val \<Rightarrow> nat \<Rightarrow> bool" for h :: store where
  here: "a < length h \<Longrightarrow> reaches h (RRef a) a"
| step: "a < length h \<Longrightarrow> (k, v) \<in> set (h ! a) \<Longrightarrow> reaches h v b \<Longrightarrow> reaches h (RRef a) b"

code_pred reaches .


text \<open>
  A value that its JSON text gives back as it is: none of its parts is
  \<^verbatim>\<open>undefined\<close>, \<^verbatim>\<open>NaN\<close>, an infinity or the negative zero.
\<close>

fun json_exact :: "jsval \<Rightarrow> bool"
  and json_exact_members :: "(string \<times> jsval) list \<Rightarrow> bool" where
  "json_exact JUndefined = False"
| "json_exact JNull = True"
| "json_exact (JBool b) = True"
| "json_exact (JNum n) = True"
| "json_exact (JSpecial x) = False"
| "json_exact (JStr s) = True"
| "json_exact (JObj ps) = json_exact_members ps"
| "json_exact_members [] = True"
| "json_exact_members ((k, v) # ps) = (json_exact v \<and> json_exact_members ps)"

text \<open>A value, or all values of a property list, refer to addresses from \<open>lo\<close> up to \<open>hi\<close> only.\<close>

fun within :: "nat \<Rightarrow> nat \<Rightarrow> ref_val \<Rightarrow> bool" where
  "within lo hi (RRef b) = (lo \<le> b \<and> b < hi)"
| "within lo hi v = True"

definition props_within :: "nat \<Rightarrow> nat \<Rightarrow> (string \<times> ref_val) list \<Rightarrow> bool" where
  "props_within lo hi ps = list_all (\<lambda>p. within lo hi (snd p)) ps"

section \<open>Properties of own properties\<close>

lemma own_get_absent: "\<not> has_own ps k \<Longrightarrow> own_get ps k = JUndefined"
  by (induction ps) (auto split: if_splits)

lemma own_get_own_update:
  "own_get (own_update ps k v) k' = (if k' = k \<and> has_own ps k then v else own_get ps k')"
  by (induction ps) auto

lemma own_get_append:
  "own_get (ps @ [(k, v)]) k' =
     (if has_own ps k' then own_get ps k' else if k' = k then v else JUndefined)"
  by (induction ps) auto

lemma own_get_insert_index:
  "\<not> has_own ps k \<Longrightarrow>
     own_get (own_insert_index i k v ps) k' = (if k' = k then v else own_get ps k')"
  by (induction ps) (auto split: option.splits if_splits)

lemma own_get_define:
  "own_get (own_define ps k v) k' = (if k' = k then v else own_get ps k')"
  by (auto simp: own_define_def own_get_own_update own_get_append own_get_insert_index
        own_get_absent split: option.splits)

lemma js_set_object:
  "k \<noteq> ''__proto__'' \<Longrightarrow> js_set (JObj ps) k w = Inr (JObj (own_define ps k w))"
  by (simp add: own_define_def)

section \<open>Construction from an input that is no object\<close>

text \<open>
  C10. Constructing an envelope from \<^verbatim>\<open>null\<close> takes the object branch, since
  \<^verbatim>\<open>typeof null\<close> is \<^verbatim>\<open>'object'\<close>, and fails there with the host's
  \<^verbatim>\<open>TypeError\<close> for reading \<^verbatim>\<open>_signed_\<close> of \<^verbatim>\<open>null\<close>; it does not fail with
  the error of the unsupported-input path.
\<close>

theorem Message_null_TypeError:
  "js_typeof JNull = ''object''
   \<and> Message dec JNull = Inl TypeError
   \<and> Message dec JNull \<noteq> Inl InvalidInputKind"
  by (simp add: Message_def initial_payload_def)

text \<open>
  C5 claims that a number or a boolean is rejected with \<open>InvalidInputKind\<close>. The
  constructor returns an empty envelope instead: the test before the \<^verbatim>\<open>throw\<close> of
  line 29 reads the type of the unassigned variable \<^verbatim>\<open>payload\<close> and always
  succeeds.
\<close>

theorem Message_number_boolean_accepted:
  "Message dec (JNum n) = Inr \<lparr>signed_bucket = JObj [], params_bucket = JObj [], verified = False\<rparr>
   \<and> Message dec (JBool b) = Inr \<lparr>signed_bucket = JObj [], params_bucket = JObj [], verified = False\<rparr>"
  by (simp add: Message_def initial_payload_def Let_def)

section \<open>Mutation and the verified flag\<close>

lemma addSigned_invalidates:
  assumes "Object_keys obj = Inr ks" and "ks \<noteq> []" and "params_bucket this = JObj ps"
  shows "verified (final_state (addSigned obj this)) = False
       \<and> signature (final_state (addSigned obj this)) = Inr JUndefined"
proof -
  obtain e b where ab: "assign_keys ks obj (signed_bucket this) = (e, b)"
    by (cases "assign_keys ks obj (signed_bucket this)")
  show ?thesis
    using assms ab
    by (cases e)
      (simp_all add: addSigned_def clearSig_def js_set_object signature_def own_get_define
         del: js_set.simps)
qed

text \<open>
  C1 claims that \<^verbatim>\<open>addParams({alias: x})\<close> and \<^verbatim>\<open>addParams({sig: y})\<close> complete
  with the signature cleared and \<^verbatim>\<open>verified\<close> false. Both calls throw a
  \<^verbatim>\<open>ReferenceError\<close> at line 140 and leave the envelope as it was, a verified one
  still verified and its signature in place.
\<close>

theorem addParams_alias_sig_throws:
  "addParams (JObj [(''alias'', x)]) this = Throw ReferenceError this
   \<and> addParams (JObj [(''sig'', y)]) this = Throw ReferenceError this
   \<and> final_state
        (addParams (JObj [(''alias'', JStr ''x'')])
           \<lparr>signed_bucket = JObj [], params_bucket = JObj [(''sig'', JStr ''ab'')], verified = True\<rparr>)
      = \<lparr>signed_bucket = JObj [], params_bucket = JObj [(''sig'', JStr ''ab'')], verified = True\<rparr>"
  by (simp add: addParams_def unbound_clearSig_def)

subsection \<open>The values of the signed bucket\<close>

lemma JSON_stringify_kind:
  "js_typeof (JSON_stringify v) = ''string'' \<or> JSON_stringify v = JUndefined"
  by (simp add: JSON_stringify_def split: option.splits)

lemma js_set_stringified:
  assumes "js_typeof (own_get ps key) \<noteq> ''string''"
  shows "\<exists>ps1. js_set (JObj ps) key (JSON_stringify (own_get ps key)) = Inr (JObj ps1)
           \<and> (\<forall>k. own_get ps1 k = (if k = key then JSON_stringify (own_get ps key) else own_get ps k))"
proof (cases "has_own ps key")
  case True
  then show ?thesis by (simp add: own_get_own_update)
next
  case False
  then have u: "own_get ps key = JUndefined" by (rule own_get_absent)
  show ?thesis
  proof (cases "key = ''__proto__''")
    case True
    then show ?thesis using False u by (simp add: JSON_stringify_def)
  next
    case False
    then show ?thesis using \<open>\<not> has_own ps key\<close> by (simp add: own_get_define)
  qed
qed

lemma stringify_values_object:
  "\<exists>ps'. stringify_values ks (JObj ps) = Inr (JObj ps')
     \<and> (\<forall>k. own_get ps' k =
           (if k \<in> set ks \<and> js_typeof (own_get ps k) \<noteq> ''string''
            then JSON_stringify (own_get ps k) else own_get ps k))"
proof (induction ks arbitrary: ps)
  case Nil
  then show ?case by simp
next
  case (Cons key ks)
  show ?case
  proof (cases "js_typeof (own_get ps key) = ''string''")
    case True
    then show ?thesis using Cons.IH [of ps] by auto
  next
    case False
    obtain ps1 where s: "js_set (JObj ps) key (JSON_stringify (own_get ps key)) = Inr (JObj ps1)"
      and g: "\<And>k. own_get ps1 k = (if k = key then JSON_stringify (own_get ps key) else own_get ps k)"
      using js_set_stringified [OF False] by blast
    obtain ps' where r: "stringify_values ks (JObj ps1) = Inr (JObj ps')"
      and g': "\<And>k. own_get ps' k =
           (if k \<in> set ks \<and> js_typeof (own_get ps1 k) \<noteq> ''string''
            then JSON_stringify (own_get ps1 k) else own_get ps1 k)"
      using Cons.IH [of ps1] by blast
    have idem: "js_typeof (JSON_stringify v) \<noteq> ''string'' \<Longrightarrow> JSON_stringify (JSON_stringify v) = JSON_stringify v" for v
      using JSON_stringify_kind [of v] by (auto simp: JSON_stringify_def)
    have "stringify_values (key # ks) (JObj ps) = Inr (JObj ps')"
      using False s r by (simp del: js_set.simps)
    moreover have "own_get ps' k =
           (if k \<in> set (key # ks) \<and> js_typeof (own_get ps k) \<noteq> ''string''
            then JSON_stringify (own_get ps k) else own_get ps k)" for k
      using g' [of k] g [of k] False idem by auto
    ultimately show ?thesis by blast
  qed
qed

lemma stringify_values_strings:
  assumes "stringify_values (map fst ps) (JObj ps) = Inr sg"
  shows "\<exists>ps'. sg = JObj ps'
           \<and> (\<forall>k. js_typeof (own_get ps' k) = ''string'' \<or> own_get ps' k = JUndefined)"
proof -
  obtain ps' where r: "stringify_values (map fst ps) (JObj ps) = Inr (JObj ps')"
    and g: "\<And>k. own_get ps' k =
           (if k \<in> set (map fst ps) \<and> js_typeof (own_get ps k) \<noteq> ''string''
            then JSON_stringify (own_get ps k) else own_get ps k)"
    using stringify_values_object [of "map fst ps" ps] by blast
  have absent: "k \<notin> set (map fst ps) \<Longrightarrow> own_get ps k = JUndefined" for k
    by (induction ps) auto
  have "js_typeof (own_get ps' k) = ''string'' \<or> own_get ps' k = JUndefined" for k
    using g [of k] absent [of k] JSON_stringify_kind [of "own_get ps k"] by auto
  then show ?thesis using r assms by auto
qed

lemma stringify_values_primitive:
  "(\<And>ps. sg \<noteq> JObj ps) \<Longrightarrow> stringify_values ks sg = Inr x \<Longrightarrow> x = sg"
proof (induction ks arbitrary: sg)
  case Nil
  then show ?case by simp
next
  case (Cons key ks)
  then show ?case
    by (cases sg) (auto split: sum.splits if_splits)
qed

text \<open>
  Construction from an object leaves, in a signed bucket that is an object, only
  strings, and \<^verbatim>\<open>undefined\<close> where the value was \<^verbatim>\<open>undefined\<close>, for which
  \<^verbatim>\<open>JSON.stringify\<close> gives no text.
\<close>

lemma Message_object_signed_strings:
  assumes "Message dec (JObj ps) = Inr m" and "signed_bucket m = JObj sg"
  shows "js_typeof (own_get sg k) = ''string'' \<or> own_get sg k = JUndefined"
proof -
  let ?s = "if truthy (own_get ps ''_signed_'') then own_get ps ''_signed_'' else JObj ps"
  have ip: "initial_payload dec (JObj ps)
        = Inr (if truthy (own_get ps ''_signed_'') then JObj ps else JObj [(''_signed_'', JObj ps)])"
    by (simp add: initial_payload_def)
  have sv: "\<exists>ks. Object_keys ?s = Inr ks \<and> stringify_values ks ?s = Inr (JObj sg)"
    using assms ip
    by (auto simp: Message_def Let_def split: sum.splits if_splits)
  then obtain ks where ks: "Object_keys ?s = Inr ks" and st: "stringify_values ks ?s = Inr (JObj sg)"
    by blast
  show ?thesis
  proof (cases "\<exists>q. ?s = JObj q")
    case True
    then obtain q where q: "?s = JObj q" by blast
    then have "stringify_values (map fst q) (JObj q) = Inr (JObj sg)"
      using ks st by simp
    from stringify_values_strings [OF this] show ?thesis by auto
  next
    case False
    then have "JObj sg = ?s"
      using stringify_values_primitive [OF _ st] by blast
    then show ?thesis using False by metis
  qed
qed

text \<open>
  C8 claims that a value merged in through \<^verbatim>\<open>addSigned\<close> is replaced by its JSON
  text when it is not a string. \<^verbatim>\<open>addSigned\<close> stores the value as it is given:
  the number 5 stays a number, where the constructor stores the string \<^verbatim>\<open>5\<close>.
\<close>

theorem addSigned_keeps_number:
  "addSigned (JObj [(''n'', JNum 5)])
      \<lparr>signed_bucket = JObj [], params_bucket = JObj [], verified = False\<rparr>
     = Return \<lparr>signed_bucket = JObj [(''n'', JNum 5)],
               params_bucket = JObj [(''sig'', JUndefined)], verified = False\<rparr>
   \<and> js_typeof (JNum 5) = ''number''
   \<and> Message dec (JObj [(''n'', JNum 5)])
     = Inr \<lparr>signed_bucket = JObj [(''n'', JStr ''5'')], params_bucket = JObj [], verified = False\<rparr>"
  by (simp add: addSigned_def clearSig_def Message_def initial_payload_def Let_def own_define_def
        array_index_def is_digit_def JSON_stringify_def int_text_def nat_text.simps digit_char_def)

section \<open>The identity of an unsigned envelope\<close>

text \<open>
  C7. When the signature param of an envelope is absent (reading it gives
  \<^verbatim>\<open>undefined\<close>; the same holds for every falsy value), reading \<^verbatim>\<open>uuid\<close> throws
  the \<open>NoSignature\<close> error whatever \<^verbatim>\<open>getMessageUUID\<close> is, so no value is
  returned; comparing two such envelopes throws it as well. The envelope made from
  \<^verbatim>\<open>{}\<close> is such an envelope: it has no signed keys and is not verified.
\<close>

theorem uuid_unsigned_NoSignature:
  assumes "signature this = Inr s" and "\<not> truthy s"
    and "signature that = Inr t" and "\<not> truthy t"
  shows "uuid g this = Inl NoSignature
       \<and> uuid g that = Inl NoSignature
       \<and> compare lc g this that = Inl NoSignature
       \<and> Message dec (JObj [])
           = Inr \<lparr>signed_bucket = JObj [], params_bucket = JObj [], verified = False\<rparr>
       \<and> keys \<lparr>signed_bucket = JObj [], params_bucket = JObj [], verified = False\<rparr> = Inr []
       \<and> signature \<lparr>signed_bucket = JObj [], params_bucket = JObj [], verified = False\<rparr>
           = Inr JUndefined"
  using assms
  by (simp add: uuid_def compare_def Message_def initial_payload_def Let_def keys_def signature_def)

theorem uuid_unsigned_NoSignature_witness:
  "signature \<lparr>signed_bucket = JObj [], params_bucket = JObj [], verified = False\<rparr> = Inr JUndefined
   \<and> \<not> truthy JUndefined
   \<and> uuid getMessageUUID \<lparr>signed_bucket = JObj [], params_bucket = JObj [], verified = False\<rparr>
       = Inl NoSignature
   \<and> compare (\<lambda>a b. 0) getMessageUUID
        \<lparr>signed_bucket = JObj [], params_bucket = JObj [], verified = False\<rparr>
        \<lparr>signed_bucket = JObj [], params_bucket = JObj [(''sig'', JUndefined)], verified = False\<rparr>
       = Inl NoSignature"
proof -
  let ?m = "\<lparr>signed_bucket = JObj [], params_bucket = JObj [], verified = False\<rparr>"
  let ?m' = "\<lparr>signed_bucket = JObj [], params_bucket = JObj [(''sig'', JUndefined)], verified = False\<rparr>"
  have a: "signature ?m = Inr JUndefined" and b: "signature ?m' = Inr JUndefined"
    by (simp_all add: signature_def)
  have c: "\<not> truthy JUndefined" by simp
  show ?thesis
    using uuid_unsigned_NoSignature [OF a c b c, of getMessageUUID "\<lambda>a b. 0"] a c by simp
qed

section \<open>Verification\<close>

lemma strict_neq_truthy: "truthy a \<Longrightarrow> a \<noteq> b \<Longrightarrow> strict_neq a b"
  by (cases a; cases b rule: normal_zero.cases) (auto simp: strict_neq_def)

text \<open>
  C3. An envelope claims an alias when its alias param is truthy, and has a signature
  when its sig param is truthy: these are the tests of lines 78, 92, 111 and 127.
  For such an envelope, when the service resolves an alias different from the claimed
  one, \<^verbatim>\<open>verify\<close> and \<^verbatim>\<open>verifySync\<close> throw the \<open>AuthorMismatch\<close> error and
  leave the envelope as it was: the params bucket still holds the claimed alias, and
  \<^verbatim>\<open>verified\<close> has the value it had.
\<close>

theorem verify_mismatch_rejected:
  assumes "js_get (params_bucket this) ''alias'' = Inr claimed" and "truthy claimed"
    and "signature this = Inr s" and "truthy s"
    and "js_get authorship ''alias'' = Inr resolved" and "claimed \<noteq> resolved"
  shows "(verifyData api this domain = Inr authorship \<longrightarrow>
            verify (Some api) domain this = Throw AuthorMismatch this
            \<and> params_bucket (final_state (verify (Some api) domain this)) = params_bucket this
            \<and> verified (final_state (verify (Some api) domain this)) = verified this)
       \<and> (verifyDataSync api this blockNumber domain = Inr authorship \<longrightarrow>
            verifySync (Some api) blockNumber domain this = Throw AuthorMismatch this
            \<and> params_bucket (final_state (verifySync (Some api) blockNumber domain this))
                = params_bucket this
            \<and> verified (final_state (verifySync (Some api) blockNumber domain this))
                = verified this)"
  using assms strict_neq_truthy [of claimed resolved]
  by (simp add: verify_def verifySync_def reconcile_def)

theorem verify_mismatch_rejected_witness:
  "verify (Some (resolving (JStr ''alice''))) ()
      \<lparr>signed_bucket = JObj [],
        params_bucket = JObj [(''alias'', JStr ''bob''), (''sig'', JStr ''ab'')], verified = False\<rparr>
     = Throw AuthorMismatch
        \<lparr>signed_bucket = JObj [],
          params_bucket = JObj [(''alias'', JStr ''bob''), (''sig'', JStr ''ab'')], verified = False\<rparr>
   \<and> verifySync (Some (resolving (JStr ''alice''))) (JNum 7) ()
      \<lparr>signed_bucket = JObj [],
        params_bucket = JObj [(''alias'', JStr ''bob''), (''sig'', JStr ''ab'')], verified = False\<rparr>
     = Throw AuthorMismatch
        \<lparr>signed_bucket = JObj [],
          params_bucket = JObj [(''alias'', JStr ''bob''), (''sig'', JStr ''ab'')], verified = False\<rparr>"
proof -
  let ?m = "\<lparr>signed_bucket = JObj [],
              params_bucket = JObj [(''alias'', JStr ''bob''), (''sig'', JStr ''ab'')],
              verified = False\<rparr>"
  have a: "js_get (params_bucket ?m) ''alias'' = Inr (JStr ''bob'')" by simp
  have b: "truthy (JStr ''bob'')" by simp
  have c: "signature ?m = Inr (JStr ''ab'')" by (simp add: signature_def)
  have d: "truthy (JStr ''ab'')" by simp
  have e: "js_get (JObj [(''alias'', JStr ''alice'')]) ''alias'' = Inr (JStr ''alice'')" by simp
  have f: "JStr ''bob'' \<noteq> JStr ''alice''" by simp
  show ?thesis
    using verify_mismatch_rejected [OF a b c d e f, of "resolving (JStr ''alice'')" "()" "JNum 7"]
    by (simp add: resolving_def)
qed

text \<open>
  C4 claims that an adopted alias is stored as the hex encoding of the resolved
  label. \<^verbatim>\<open>verify\<close> stores the value the service returned: resolving
  \<^verbatim>\<open>alice\<close> leaves \<^verbatim>\<open>alice\<close> in the params bucket, not \<^verbatim>\<open>616c696365\<close>.
\<close>

theorem verify_adopts_without_encoding:
  "verify (Some (resolving (JStr ''alice''))) ()
      \<lparr>signed_bucket = JObj [], params_bucket = JObj [(''sig'', JStr ''ab'')], verified = False\<rparr>
     = Return
        \<lparr>signed_bucket = JObj [],
          params_bucket = JObj [(''sig'', JStr ''ab''), (''alias'', JStr ''alice'')], verified = True\<rparr>
   \<and> hex_encoding ''alice'' = ''616c696365''
   \<and> JStr ''alice'' \<noteq> JStr (hex_encoding ''alice'')"
  by (simp add: verify_def reconcile_def store_alias_def signature_def resolving_def
        own_define_def array_index_def is_digit_def hex_encoding_def hex_char_def)

text \<open>
  C4, amended. For a signed envelope (a params object with a truthy sig) that claims
  no alias, a call of \<^verbatim>\<open>verify\<close> in which the service returns an authorship
  returns the envelope itself, with \<^verbatim>\<open>verified\<close> true and with the alias param
  set to the alias of the authorship exactly as the service returned it.
\<close>

theorem verify_adopts_resolved_alias:
  assumes "params_bucket this = JObj ps"
    and "truthy (own_get ps ''sig'')" and "\<not> truthy (own_get ps ''alias'')"
    and "verifyData api this domain = Inr authorship"
    and "js_get authorship ''alias'' = Inr a"
  shows "verify (Some api) domain this
           = Return (this\<lparr>params_bucket := JObj (own_define ps ''alias'' a), verified := True\<rparr>)
       \<and> js_get (JObj (own_define ps ''alias'' a)) ''alias'' = Inr a"
  using assms
  by (simp add: verify_def reconcile_def store_alias_def signature_def js_set_object
        own_get_define del: js_set.simps)

theorem verify_adopts_resolved_alias_witness:
  "verify (Some (resolving (JStr ''616c696365''))) ()
      \<lparr>signed_bucket = JObj [], params_bucket = JObj [(''sig'', JStr ''ab'')], verified = False\<rparr>
     = Return
        \<lparr>signed_bucket = JObj [],
          params_bucket = JObj [(''sig'', JStr ''ab''), (''alias'', JStr ''616c696365'')],
          verified = True\<rparr>"
proof -
  let ?m = "\<lparr>signed_bucket = JObj [], params_bucket = JObj [(''sig'', JStr ''ab'')],
              verified = False\<rparr>"
  have a: "params_bucket ?m = JObj [(''sig'', JStr ''ab'')]" by simp
  have b: "truthy (own_get [(''sig'', JStr ''ab'')] ''sig'')" by simp
  have c: "\<not> truthy (own_get [(''sig'', JStr ''ab'')] ''alias'')" by simp
  have d: "verifyData (resolving (JStr ''616c696365'')) ?m ()
             = Inr (JObj [(''alias'', JStr ''616c696365'')])"
    by (simp add: resolving_def)
  have e: "js_get (JObj [(''alias'', JStr ''616c696365'')]) ''alias'' = Inr (JStr ''616c696365'')"
    by simp
  show ?thesis
    using verify_adopts_resolved_alias [OF a b c d e]
    by (simp add: own_define_def array_index_def is_digit_def)
qed

section \<open>Construction from a URI string\<close>

lemma indexOf_single_absent: "c \<notin> set s \<Longrightarrow> indexOf s [c] = - 1"
  by (induction s) auto

lemma split_on_absent: "sep \<notin> set s \<Longrightarrow> split_on sep s = [s]"
  by (induction s) auto

lemma indexOf_range: "- 1 \<le> indexOf s p \<and> indexOf s p \<le> int (length s)"
  by (induction s) (auto simp: Let_def)

lemma indexOf_at_front: "take (length p) s = p \<Longrightarrow> indexOf s p = 0"
  by (cases s) auto

lemma indexOf_found:
  "indexOf s p \<noteq> - 1 \<Longrightarrow> take (length p) (drop (nat (indexOf s p)) s) = p"
proof (induction s)
  case Nil
  then show ?case by (auto split: if_splits)
next
  case (Cons c cs)
  show ?case
  proof (cases "take (length p) (c # cs) = p")
    case True
    then show ?thesis by simp
  next
    case False
    with Cons.prems have r: "indexOf cs p \<noteq> - 1"
      by (auto simp: Let_def split: if_splits)
    have ge: "0 \<le> indexOf cs p"
      using indexOf_range [of cs p] r by arith
    have "indexOf (c # cs) p = indexOf cs p + 1"
      using False r by (simp add: Let_def)
    moreover have "nat (indexOf cs p + 1) = Suc (nat (indexOf cs p))"
      using ge by simp
    ultimately show ?thesis
      using Cons.IH [OF r] by simp
  qed
qed

lemma indexOf_absent_no_occurrence: "indexOf s p = - 1 \<Longrightarrow> s \<noteq> a @ p @ b"
proof (induction s arbitrary: a)
  case Nil
  then show ?case by (auto split: if_splits)
next
  case (Cons c cs)
  have nt: "take (length p) (c # cs) \<noteq> p" and r: "indexOf cs p = - 1"
    using Cons.prems indexOf_range [of cs p] by (auto simp: Let_def split: if_splits)
  show ?case
  proof (cases a)
    case Nil
    then show ?thesis using nt by auto
  next
    case (Cons x xs)
    then show ?thesis using Cons.IH [OF r, of xs] by auto
  qed
qed

text \<open>The test of line 21 holds exactly when the prefix occurs somewhere in the key.\<close>

lemma indexOf_contains: "indexOf s p \<noteq> - 1 \<longleftrightarrow> (\<exists>a b. s = a @ p @ b)"
proof
  assume f: "indexOf s p \<noteq> - 1"
  let ?i = "nat (indexOf s p)"
  have "s = take ?i s @ drop ?i s" by simp
  also have "drop ?i s = take (length p) (drop ?i s) @ drop (length p) (drop ?i s)"
    by (simp only: append_take_drop_id)
  also have "take (length p) (drop ?i s) = p" using indexOf_found [OF f] .
  finally show "\<exists>a b. s = a @ p @ b" by blast
next
  assume "\<exists>a b. s = a @ p @ b"
  then show "indexOf s p \<noteq> - 1" using indexOf_absent_no_occurrence by blast
qed

text \<open>
  When the prefix stands at the front of the key, the name of line 22 is the name of
  the specification's wording.
\<close>

lemma stripped_at_front:
  "take (length prefix) key = prefix \<Longrightarrow>
     stripped_as_claimed key prefix = substring key (length prefix)"
  by (simp add: stripped_as_claimed_def substring_def indexOf_at_front)

lemma payload_put:
  "js_set (JObj [(''_signed_'', a), (''_params_'', b)]) ''_signed_'' x
     = Inr (JObj [(''_signed_'', x), (''_params_'', b)])"
  "js_set (JObj [(''_signed_'', a), (''_params_'', b)]) ''_params_'' x
     = Inr (JObj [(''_signed_'', a), (''_params_'', x)])"
  by simp_all

lemma route_key_buckets:
  assumes "substring key 8 \<noteq> ''__proto__''"
  shows "route_key [''_signed_'', ''_params_''] key val
           (JObj [(''_signed_'', JObj sg), (''_params_'', JObj pr)])
         = Inr (JObj
             [(''_signed_'',
                JObj (if indexOf key ''_signed_'' \<noteq> - 1
                      then own_define sg (substring key 8) (JStr val) else sg)),
              (''_params_'',
                JObj (if indexOf key ''_params_'' \<noteq> - 1
                      then own_define pr (substring key 8) (JStr val) else pr))])"
proof -
  have len8: "length ''_signed_'' = 8" "length ''_params_'' = 8" by simp_all
  show ?thesis
    unfolding route_key.simps len8
    using assms by (simp add: js_set_object payload_put del: js_set.simps)
qed

text \<open>
  C2 claims that the value is stored under the key with everything up to and
  including the occurrence of the prefix removed. Line 22 removes the first eight
  characters of the key, wherever the prefix occurs: the key \<^verbatim>\<open>x_signed_name\<close>
  contains \<^verbatim>\<open>_signed_\<close> at position 1 and its value is stored under \<^verbatim>\<open>_name\<close>,
  not under \<^verbatim>\<open>name\<close>.
\<close>

theorem uri_key_strip_counterexample:
  "indexOf ''x_signed_name'' ''_signed_'' = 1
   \<and> stripped_as_claimed ''x_signed_name'' ''_signed_'' = ''name''
   \<and> Message decode_plain (JStr ''x_signed_name=hi'')
       = Inr \<lparr>signed_bucket = JObj [(''_name'', JStr ''hi'')], params_bucket = JObj [],
               verified = False\<rparr>
   \<and> js_get (JObj [(''_name'', JStr ''hi'')]) (stripped_as_claimed ''x_signed_name'' ''_signed_'')
       = Inr JUndefined"
  by (simp add: stripped_as_claimed_def Message_def initial_payload_def parse_uri_def
        query_part_def Let_def substring_def element_text_def decode_plain_def own_define_def
        array_index_def is_digit_def)

text \<open>
  C2, amended. For every component of the query whose key and value decode, and for
  each of the two bucket names: if the decoded key contains the name anywhere, the
  value is stored in that bucket under the key without its first eight characters
  (the length of the name), and the bucket is unchanged otherwise; a key that contains
  both names is stored in both buckets, under the same name. The loop then goes on
  with the next component. The property name \<^verbatim>\<open>__proto__\<close> is left aside.
\<close>

theorem parse_components_routes:
  assumes "dec (element_text (split_on CHR ''='' c) 0) = Inr key"
    and "dec (element_text (split_on CHR ''='' c) 1) = Inr val"
    and "substring key 8 \<noteq> ''__proto__''"
  shows "parse_components dec (c # cs) (JObj [(''_signed_'', JObj sg), (''_params_'', JObj pr)])
         = parse_components dec cs
             (JObj
               [(''_signed_'',
                  JObj (if indexOf key ''_signed_'' \<noteq> - 1
                        then own_define sg (substring key 8) (JStr val) else sg)),
                (''_params_'',
                  JObj (if indexOf key ''_params_'' \<noteq> - 1
                        then own_define pr (substring key 8) (JStr val) else pr))])
       \<and> js_get (JObj (own_define sg (substring key 8) (JStr val))) (substring key 8)
           = Inr (JStr val)
       \<and> js_get (JObj (own_define pr (substring key 8) (JStr val))) (substring key 8)
           = Inr (JStr val)"
  using assms(1,2) route_key_buckets [OF assms(3)]
  by (simp add: Let_def own_get_define del: route_key.simps)

theorem parse_components_routes_witness:
  "parse_components decode_plain [''_signed__params_k=v'']
      (JObj [(''_signed_'', JObj []), (''_params_'', JObj [])])
     = Inr (JObj [(''_signed_'', JObj [(''_params_k'', JStr ''v'')]),
                  (''_params_'', JObj [(''_params_k'', JStr ''v'')])])"
proof -
  have a: "decode_plain (element_text (split_on CHR ''='' ''_signed__params_k=v'') 0)
             = Inr ''_signed__params_k''"
    by (simp add: element_text_def decode_plain_def)
  have b: "decode_plain (element_text (split_on CHR ''='' ''_signed__params_k=v'') 1) = Inr ''v''"
    by (simp add: element_text_def decode_plain_def)
  have c: "substring ''_signed__params_k'' 8 \<noteq> ''__proto__''"
    by (simp add: substring_def)
  have d: "indexOf ''_signed__params_k'' ''_signed_'' \<noteq> - 1"
     "indexOf ''_signed__params_k'' ''_params_'' \<noteq> - 1"
    by simp_all
  show ?thesis
    using parse_components_routes [OF a b c, of "[]" "[]" "[]"] d
    by (simp add: substring_def own_define_def array_index_def is_digit_def
          del: parse_components.simps(2) indexOf.simps)
qed

subsection \<open>The scenario of a signed name and a prefixed signature\<close>

lemma not_hex_absent: "list_all is_hex h \<Longrightarrow> \<not> is_hex c \<Longrightarrow> c \<notin> set h"
  by (auto simp: list_all_iff)

lemma special_not_hex:
  "\<not> is_hex CHR ''?''" "\<not> is_hex CHR ''#''" "\<not> is_hex CHR ''&''"
  "\<not> is_hex CHR ''=''" "\<not> is_hex CHR ''%''"
  by (simp_all add: is_hex_def)

lemma hex_not_special:
  assumes "list_all is_hex h"
  shows "CHR ''?'' \<notin> set h" "CHR ''#'' \<notin> set h" "CHR ''&'' \<notin> set h"
    "CHR ''='' \<notin> set h" "CHR ''%'' \<notin> set h"
  using assms special_not_hex by (blast dest: not_hex_absent)+

lemma scenario_components:
  assumes "split_on CHR ''='' c = [''_params_sig'', v]" and "decode_plain v = Inr v"
  shows "parse_components decode_plain [''_signed_name=hi'', c]
           (JObj [(''_signed_'', JObj []), (''_params_'', JObj [])])
         = Inr (JObj [(''_signed_'', JObj [(''name'', JStr ''hi'')]),
                      (''_params_'', JObj [(''sig'', JStr v)])])"
  using assms
  by (simp add: Let_def element_text_def decode_plain_def substring_def own_define_def
        array_index_def is_digit_def)

lemma scenario_message:
  assumes "query_part data = data"
    and "split_on CHR ''&'' data = [''_signed_name=hi'', c]"
    and "split_on CHR ''='' c = [''_params_sig'', v]" and "decode_plain v = Inr v"
  shows "Message decode_plain (JStr data)
     = Inr \<lparr>signed_bucket = JObj [(''name'', JStr ''hi'')],
            params_bucket = JObj [(''sig'', JStr v)], verified = False\<rparr>"
  using assms(1,2) scenario_components [OF assms(3,4)]
  by (simp add: Message_def initial_payload_def parse_uri_def Let_def
        del: parse_components.simps)

lemma uri_scenario_construction:
  assumes "list_all is_hex h"
  shows "Message decode_plain (JStr (''_signed_name=hi&_params_sig=0x'' @ h))
     = Inr \<lparr>signed_bucket = JObj [(''name'', JStr ''hi'')],
            params_bucket = JObj [(''sig'', JStr (''0x'' @ h))], verified = False\<rparr>"
proof -
  note hs = hex_not_special [OF assms]
  have q: "query_part (''_signed_name=hi&_params_sig=0x'' @ h)
             = ''_signed_name=hi&_params_sig=0x'' @ h"
    using hs by (simp add: query_part_def indexOf_single_absent del: indexOf.simps)
  have s: "split_on CHR ''&'' (''_signed_name=hi&_params_sig=0x'' @ h)
             = [''_signed_name=hi'', ''_params_sig=0x'' @ h]"
    using hs by (simp add: split_on_absent)
  have e: "split_on CHR ''='' (''_params_sig=0x'' @ h) = [''_params_sig'', ''0x'' @ h]"
    using hs by (simp add: split_on_absent)
  have d: "decode_plain (''0x'' @ h) = Inr (''0x'' @ h)"
    using hs by (simp add: decode_plain_def)
  show ?thesis
    by (rule scenario_message [OF q s e d])
qed

text \<open>
  C6 claims that the signature accessor of the envelope built from the URI string
  gives the 40 hex characters without the \<^verbatim>\<open>0x\<close> prefix. The constructor stores
  the value of \<^verbatim>\<open>_params_sig\<close> as it stands in the string, prefix included.
\<close>

theorem uri_signature_keeps_prefix:
  "Message decode_plain (JStr ''_signed_name=hi&_params_sig=0xabc123abc123abc123abc123abc123abc123abcd'')
     = Inr \<lparr>signed_bucket = JObj [(''name'', JStr ''hi'')],
            params_bucket = JObj [(''sig'', JStr ''0xabc123abc123abc123abc123abc123abc123abcd'')],
            verified = False\<rparr>
   \<and> signature \<lparr>signed_bucket = JObj [(''name'', JStr ''hi'')],
            params_bucket = JObj [(''sig'', JStr ''0xabc123abc123abc123abc123abc123abc123abcd'')],
            verified = False\<rparr>
       = Inr (JStr ''0xabc123abc123abc123abc123abc123abc123abcd'')
   \<and> JStr ''0xabc123abc123abc123abc123abc123abc123abcd'' \<noteq> JStr ''abc123abc123abc123abc123abc123abc123abcd''"
  by (simp add: signature_def Message_def initial_payload_def parse_uri_def
        query_part_def Let_def substring_def element_text_def decode_plain_def own_define_def
        array_index_def is_digit_def)

text \<open>
  C6, amended. For 40 hex characters \<open>h\<close>, the envelope built from the URI string
  \<^verbatim>\<open>_signed_name=hi&_params_sig=0x\<close>\<open>h\<close> has the one signed key \<^verbatim>\<open>name\<close> with the
  value \<^verbatim>\<open>hi\<close>; its signature accessor gives the value as supplied, \<^verbatim>\<open>0x\<close>
  followed by \<open>h\<close>; its identity, with the helper as the specification defines it,
  is \<open>h\<close>, the first 40 characters of the signature after its prefix. A signature
  supplied through the signature setter with a leading \<^verbatim>\<open>0x\<close> is stored without
  that prefix.
\<close>

theorem uri_scenario:
  assumes "list_all is_hex h" and "length h = 40"
  shows "Message decode_plain (JStr (''_signed_name=hi&_params_sig=0x'' @ h))
           = Inr \<lparr>signed_bucket = JObj [(''name'', JStr ''hi'')],
                  params_bucket = JObj [(''sig'', JStr (''0x'' @ h))], verified = False\<rparr>
       \<and> keys \<lparr>signed_bucket = JObj [(''name'', JStr ''hi'')],
                  params_bucket = JObj [(''sig'', JStr (''0x'' @ h))], verified = False\<rparr>
           = Inr [''name'']
       \<and> js_get (JObj [(''name'', JStr ''hi'')]) ''name'' = Inr (JStr ''hi'')
       \<and> signature \<lparr>signed_bucket = JObj [(''name'', JStr ''hi'')],
                  params_bucket = JObj [(''sig'', JStr (''0x'' @ h))], verified = False\<rparr>
           = Inr (JStr (''0x'' @ h))
       \<and> uuid getMessageUUID \<lparr>signed_bucket = JObj [(''name'', JStr ''hi'')],
                  params_bucket = JObj [(''sig'', JStr (''0x'' @ h))], verified = False\<rparr>
           = Inr h
       \<and> signature (final_state (set_signature (''0x'' @ g) (this\<lparr>params_bucket := JObj ps\<rparr>)))
           = Inr (JStr g)"
  using uri_scenario_construction [OF assms(1)] assms(2)
  by (simp add: keys_def signature_def uuid_def getMessageUUID_def set_signature_def
        substring_def js_set_object own_get_define del: js_set.simps)

theorem uri_scenario_witness:
  "list_all is_hex ''abc123abc123abc123abc123abc123abc123abcd''
   \<and> length ''abc123abc123abc123abc123abc123abc123abcd'' = 40
   \<and> Message decode_plain (JStr ''_signed_name=hi&_params_sig=0xabc123abc123abc123abc123abc123abc123abcd'')
       = Inr \<lparr>signed_bucket = JObj [(''name'', JStr ''hi'')],
              params_bucket = JObj [(''sig'', JStr ''0xabc123abc123abc123abc123abc123abc123abcd'')], verified = False\<rparr>
   \<and> uuid getMessageUUID \<lparr>signed_bucket = JObj [(''name'', JStr ''hi'')],
              params_bucket = JObj [(''sig'', JStr ''0xabc123abc123abc123abc123abc123abc123abcd'')], verified = False\<rparr>
       = Inr ''abc123abc123abc123abc123abc123abc123abcd''"
proof -
  have a: "list_all is_hex ''abc123abc123abc123abc123abc123abc123abcd''" by (simp add: is_hex_def)
  have b: "length ''abc123abc123abc123abc123abc123abc123abcd'' = 40" by simp
  show ?thesis
    using uri_scenario [OF a b] a b by simp
qed

section \<open>The payload snapshot\<close>

lemma json_copy_exact:
  "json_exact v \<Longrightarrow> json_copy v = Some v"
  "json_exact_members ps \<Longrightarrow> json_copy_members ps = ps"
  by (induction v and ps rule: json_copy_json_copy_members.induct) auto

lemma alloc_grows:
  "alloc v h = (r, h') \<Longrightarrow> \<exists>new. h' = h @ new"
  "alloc_props ps h = (rs, h') \<Longrightarrow> \<exists>new. h' = h @ new"
proof (induction v h and ps h arbitrary: r h' and rs h' rule: alloc_alloc_props.induct)
  case (7 ps h)
  then show ?case by (auto split: prod.splits)
next
  case (9 k v ps h)
  obtain r1 h1 where a: "alloc v h = (r1, h1)" by (cases "alloc v h")
  obtain rs2 h2 where b: "alloc_props ps h1 = (rs2, h2)" by (cases "alloc_props ps h1")
  from 9(1) [OF a] obtain n1 where "h1 = h @ n1" by blast
  moreover from 9(2) [OF a [symmetric] b] obtain n2 where "h2 = h1 @ n2" by blast
  ultimately show ?case using 9(3) a b by auto
qed auto


lemma within_mono: "within lo hi v \<Longrightarrow> lo' \<le> lo \<Longrightarrow> hi \<le> hi' \<Longrightarrow> within lo' hi' v"
  by (cases v) auto

lemma props_within_mono:
  "props_within lo hi ps \<Longrightarrow> lo' \<le> lo \<Longrightarrow> hi \<le> hi' \<Longrightarrow> props_within lo' hi' ps"
  by (auto simp: props_within_def list_all_iff intro: within_mono)

lemma alloc_length:
  "alloc v h = (r, h') \<Longrightarrow> length h \<le> length h'"
  "alloc_props ps h = (rs, h') \<Longrightarrow> length h \<le> length h'"
  using alloc_grows by fastforce+

lemma alloc_confined:
  "alloc v h = (r, h') \<Longrightarrow>
     within (length h) (length h') r
     \<and> (\<forall>a. length h \<le> a \<and> a < length h' \<longrightarrow> props_within (length h) (length h') (h' ! a))"
  "alloc_props ps h = (rs, h') \<Longrightarrow>
     props_within (length h) (length h') rs
     \<and> (\<forall>a. length h \<le> a \<and> a < length h' \<longrightarrow> props_within (length h) (length h') (h' ! a))"
proof (induction v h and ps h arbitrary: r h' and rs h' rule: alloc_alloc_props.induct)
  case (7 ps h)
  obtain rs1 h1 where a: "alloc_props ps h = (rs1, h1)" by (cases "alloc_props ps h")
  have le: "length h \<le> length h1" using alloc_length(2) [OF a] .
  have ih: "props_within (length h) (length h1) rs1"
    "\<And>a. length h \<le> a \<Longrightarrow> a < length h1 \<Longrightarrow> props_within (length h) (length h1) (h1 ! a)"
    using 7(1) [OF a] by auto
  have r: "r = RRef (length h1)" and h': "h' = h1 @ [rs1]" using 7(2) a by auto
  have "props_within (length h) (length h') (h' ! a)" if "length h \<le> a" "a < length h'" for a
  proof (cases "a < length h1")
    case True
    then have "h' ! a = h1 ! a" by (simp add: h' nth_append)
    then show ?thesis using ih(2) [OF that(1) True] by (auto simp: h' intro: props_within_mono)
  next
    case False
    then have "a = length h1" using that by (simp add: h')
    then show ?thesis using ih(1) by (auto simp: h' intro: props_within_mono)
  qed
  then show ?case using le by (simp add: r h')
next
  case (9 k v ps h)
  obtain r1 h1 where a: "alloc v h = (r1, h1)" by (cases "alloc v h")
  obtain rs2 h2 where b: "alloc_props ps h1 = (rs2, h2)" by (cases "alloc_props ps h1")
  have le1: "length h \<le> length h1" using alloc_length(1) [OF a] .
  have le2: "length h1 \<le> length h2" using alloc_length(2) [OF b] .
  obtain n2 where h2: "h2 = h1 @ n2" using alloc_grows(2) [OF b] by blast
  have ih1: "within (length h) (length h1) r1"
    "\<And>a. length h \<le> a \<Longrightarrow> a < length h1 \<Longrightarrow> props_within (length h) (length h1) (h1 ! a)"
    using 9(1) [OF a] by auto
  have ih2: "props_within (length h1) (length h2) rs2"
    "\<And>a. length h1 \<le> a \<Longrightarrow> a < length h2 \<Longrightarrow> props_within (length h1) (length h2) (h2 ! a)"
    using 9(2) [OF a [symmetric] b] by auto
  have res: "rs = (k, r1) # rs2" "h' = h2" using 9(3) a b by auto
  have p: "props_within (length h) (length h2) rs"
    using ih1(1) ih2(1) le1 le2
    by (auto simp: res props_within_def list_all_iff intro: within_mono)
  have "props_within (length h) (length h2) (h2 ! a)" if "length h \<le> a" "a < length h2" for a
  proof (cases "a < length h1")
    case True
    then have "h2 ! a = h1 ! a" by (simp add: h2 nth_append)
    then show ?thesis using ih1(2) [OF that(1) True] le2 by (auto intro: props_within_mono)
  next
    case False
    then show ?thesis using ih2(2) [of a] that le1 by (auto intro: props_within_mono)
  qed
  then show ?case using p by (simp add: res)
qed (auto simp: props_within_def)

lemma reaches_confined:
  assumes "reaches h r a" and "within lo hi r"
    and "\<And>c. lo \<le> c \<Longrightarrow> c < hi \<Longrightarrow> props_within lo hi (h ! c)"
  shows "lo \<le> a \<and> a < hi"
  using assms(1,2)
proof (induction rule: reaches.induct)
  case (here a)
  then show ?case by simp
next
  case (step a k v b)
  then have "props_within lo hi (h ! a)" using assms(3) by simp
  then have "within lo hi v" using step(2) by (auto simp: props_within_def list_all_iff)
  then show ?case using step.IH by simp
qed

lemma reify_extend:
  "reify h stk v = Inr t \<Longrightarrow> reify (h @ ext) stk v = Inr t"
  "reify_props h stk ps = Inr ts \<Longrightarrow> reify_props (h @ ext) stk ps = Inr ts"
proof (induction h stk v and h stk ps arbitrary: t and ts rule: reify_reify_props.induct)
  case (7 h stk a)
  from 7(2) have c: "a < length h" "a \<notin> set stk"
    by (auto split: if_splits)
  then obtain ps where p: "reify_props h (a # stk) (h ! a) = Inr ps" and t: "t = JObj ps"
    using 7(2) by (auto split: sum.splits)
  have "reify_props (h @ ext) (a # stk) (h ! a) = Inr ps"
    using 7(1) c p by simp
  then show ?case using c t by (simp add: nth_append)
next
  case (9 h stk k v ps)
  then show ?case by (auto split: sum.splits)
qed auto

lemma reify_alloc:
  "alloc v h = (r, h') \<Longrightarrow> list_all (\<lambda>x. x < length h \<or> length h' \<le> x) stk \<Longrightarrow>
     reify (h' @ ext) stk r = Inr v"
  "alloc_props ps h = (rs, h') \<Longrightarrow> list_all (\<lambda>x. x < length h \<or> length h' \<le> x) stk \<Longrightarrow>
     reify_props (h' @ ext) stk rs = Inr ps"
proof (induction v h and ps h arbitrary: r h' stk ext and rs h' stk ext rule: alloc_alloc_props.induct)
  case (7 ps h)
  obtain rs1 h1 where a: "alloc_props ps h = (rs1, h1)" by (cases "alloc_props ps h")
  have le: "length h \<le> length h1" using alloc_length(2) [OF a] .
  have r: "r = RRef (length h1)" and h': "h' = h1 @ [rs1]" using 7(2) a by auto
  have fresh: "length h1 \<notin> set stk"
    using 7(3) le by (auto simp: list_all_iff h')
  have stk': "list_all (\<lambda>x. x < length h \<or> length h1 \<le> x) (length h1 # stk)"
    using 7(3) by (auto simp: list_all_iff h')
  have "reify_props (h1 @ ([rs1] @ ext)) (length h1 # stk) rs1 = Inr ps"
    using 7(1) [OF a stk'] .
  then show ?case using fresh by (simp add: r h' nth_append)
next
  case (9 k v ps h)
  obtain r1 h1 where a: "alloc v h = (r1, h1)" by (cases "alloc v h")
  obtain rs2 h2 where b: "alloc_props ps h1 = (rs2, h2)" by (cases "alloc_props ps h1")
  have le1: "length h \<le> length h1" using alloc_length(1) [OF a] .
  have le2: "length h1 \<le> length h2" using alloc_length(2) [OF b] .
  obtain n2 where h2: "h2 = h1 @ n2" using alloc_grows(2) [OF b] by blast
  have res: "rs = (k, r1) # rs2" "h' = h2" using 9(3) a b by auto
  have s1: "list_all (\<lambda>x. x < length h \<or> length h1 \<le> x) stk"
    using 9(4) le2 by (auto simp: list_all_iff res)
  have s2: "list_all (\<lambda>x. x < length h1 \<or> length h2 \<le> x) stk"
    using 9(4) le1 by (auto simp: list_all_iff res)
  have "reify (h1 @ (n2 @ ext)) stk r1 = Inr v" using 9(1) [OF a s1] .
  moreover have "reify_props (h2 @ ext) stk rs2 = Inr ps" using 9(2) [OF a [symmetric] b s2] .
  ultimately show ?case by (simp add: res h2)
qed auto


lemma payload_in_returns:
  assumes "reify h [] (signed_ref this) = Inr s" and "reify h [] (params_ref this) = Inr p"
  shows "payload_in h this
           = Inr (alloc (JObj (json_copy_members [(''_signed_'', s), (''_params_'', p)])) h)"
  using assms by (simp add: payload_in_def payload_def)

text \<open>
  The numbers that have no JSON text of their own do not come back either: a
  \<^verbatim>\<open>NaN\<close> or an infinity in a bucket is \<^verbatim>\<open>null\<close> in the snapshot, and a
  negative zero is the zero.
\<close>

lemma payload_special_numbers:
  "payload \<lparr>signed_bucket = JObj [],
            params_bucket = JObj [(''n'', JSpecial NaN), (''i'', JSpecial PosInfinity),
                                  (''j'', JSpecial NegInfinity), (''z'', JSpecial NegZero)],
            verified = False\<rparr>
     = JObj [(''_signed_'', JObj []),
             (''_params_'', JObj [(''n'', JNull), (''i'', JNull), (''j'', JNull), (''z'', JNum 0)])]"
  by (simp add: payload_def)

text \<open>
  C9 claims that the object returned by \<^verbatim>\<open>get payload\<close> is a deep structural copy
  of the two buckets. After \<^verbatim>\<open>clearSig\<close> the params bucket has the property
  \<^verbatim>\<open>sig\<close> with the value \<^verbatim>\<open>undefined\<close>; the JSON text leaves such a property
  out, and the params object of the snapshot has no property \<^verbatim>\<open>sig\<close>.
\<close>

theorem payload_drops_undefined:
  "clearSig \<lparr>signed_bucket = JObj [], params_bucket = JObj [], verified = False\<rparr>
     = Return \<lparr>signed_bucket = JObj [], params_bucket = JObj [(''sig'', JUndefined)],
               verified = False\<rparr>
   \<and> payload \<lparr>signed_bucket = JObj [], params_bucket = JObj [(''sig'', JUndefined)],
               verified = False\<rparr>
       = JObj [(''_signed_'', JObj []), (''_params_'', JObj [])]
   \<and> payload_in [[], [(''sig'', RUndefined)]]
        \<lparr>signed_ref = RRef 0, params_ref = RRef 1, verified_flag = False\<rparr>
       = Inr (RRef 4,
              [[], [(''sig'', RUndefined)], [], [], [(''_signed_'', RRef 2), (''_params_'', RRef 3)]])
   \<and> reify [[], [(''sig'', RUndefined)]] [] (RRef 1) = Inr (JObj [(''sig'', JUndefined)])
   \<and> reify [[], [(''sig'', RUndefined)], [], [], [(''_signed_'', RRef 2), (''_params_'', RRef 3)]]
        [] (RRef 3) = Inr (JObj [])
   \<and> JObj [] \<noteq> JObj [(''sig'', JUndefined)]"
  by (simp add: clearSig_def own_define_def array_index_def is_digit_def payload_def payload_in_def)

text \<open>
  C9, amended. When \<^verbatim>\<open>get payload\<close> returns, what it returns reads as the
  value read back from the JSON text of the two buckets: as the two buckets read,
  except that properties whose value is \<^verbatim>\<open>undefined\<close> are left out, that
  \<^verbatim>\<open>NaN\<close> and the infinities have become \<^verbatim>\<open>null\<close> and that the negative
  zero has become the zero. It is an exact structural copy when no part of the
  buckets is \<^verbatim>\<open>undefined\<close>, \<^verbatim>\<open>NaN\<close>, an infinity or the negative zero. The
  getter leaves every existing object as it was, every object that can be reached
  from the returned object is new, and replacing the properties of any of them
  leaves both buckets of the envelope reading as before.
\<close>

theorem payload_snapshot_isolated:
  assumes S: "reify h [] (signed_ref this) = Inr s"
    and P: "reify h [] (params_ref this) = Inr p"
    and A: "payload_in h this = Inr (r, h')"
    and R: "reaches h' r a"
  shows "reify h' [] r = Inr (JObj (json_copy_members [(''_signed_'', s), (''_params_'', p)]))
       \<and> (json_exact s \<and> json_exact p \<longrightarrow>
            reify h' [] r = Inr (JObj [(''_signed_'', s), (''_params_'', p)]))
       \<and> take (length h) h' = h
       \<and> length h \<le> a \<and> a < length h'
       \<and> reify (h'[a := obj]) [] (signed_ref this) = Inr s
       \<and> reify (h'[a := obj]) [] (params_ref this) = Inr p"
proof -
  let ?t = "JObj (json_copy_members [(''_signed_'', s), (''_params_'', p)])"
  have al: "alloc ?t h = (r, h')"
    using payload_in_returns [OF S P] A by simp
  have "reify (h' @ []) [] r = Inr ?t"
    by (rule reify_alloc(1) [OF al]) simp
  then have c1: "reify h' [] r = Inr ?t" by simp
  have c2: "reify h' [] r = Inr (JObj [(''_signed_'', s), (''_params_'', p)])"
    if "json_exact s" "json_exact p"
    using c1 that by (simp add: json_copy_exact)
  obtain new where h': "h' = h @ new" using alloc_grows(1) [OF al] by blast
  have c3: "take (length h) h' = h" by (simp add: h')
  have conf: "within (length h) (length h') r"
    "\<And>c. length h \<le> c \<Longrightarrow> c < length h' \<Longrightarrow> props_within (length h) (length h') (h' ! c)"
    using alloc_confined(1) [OF al] by auto
  have c4: "length h \<le> a \<and> a < length h'"
    using reaches_confined [OF R conf] by simp
  have upd: "h'[a := obj] = h @ new[a - length h := obj]"
    using c4 by (simp add: h' list_update_append)
  have c5: "reify (h'[a := obj]) [] (signed_ref this) = Inr s"
    unfolding upd by (rule reify_extend(1) [OF S])
  have c6: "reify (h'[a := obj]) [] (params_ref this) = Inr p"
    unfolding upd by (rule reify_extend(1) [OF P])
  show ?thesis using c1 c2 c3 c4 c5 c6 by blast
qed

theorem payload_snapshot_isolated_witness:
  "payload_in [[(''name'', RStr ''hi'')], [(''sig'', RStr ''ab'')]]
      \<lparr>signed_ref = RRef 0, params_ref = RRef 1, verified_flag = True\<rparr>
     = Inr (RRef 4,
            [[(''name'', RStr ''hi'')], [(''sig'', RStr ''ab'')],
             [(''name'', RStr ''hi'')], [(''sig'', RStr ''ab'')],
             [(''_signed_'', RRef 2), (''_params_'', RRef 3)]])
   \<and> reaches [[(''name'', RStr ''hi'')], [(''sig'', RStr ''ab'')],
             [(''name'', RStr ''hi'')], [(''sig'', RStr ''ab'')],
             [(''_signed_'', RRef 2), (''_params_'', RRef 3)]] (RRef 4) 2
   \<and> reify ([[(''name'', RStr ''hi'')], [(''sig'', RStr ''ab'')],
             [(''name'', RStr ''hi'')], [(''sig'', RStr ''ab'')],
             [(''_signed_'', RRef 2), (''_params_'', RRef 3)]]
              [2 := [(''name'', RStr ''changed'')]]) [] (RRef 0)
       = Inr (JObj [(''name'', JStr ''hi'')])
   \<and> json_exact (JObj [(''name'', JStr ''hi'')])
   \<and> json_exact (JObj [(''sig'', JStr ''ab'')])
   \<and> reify [[(''name'', RStr ''hi'')], [(''sig'', RStr ''ab'')],
             [(''name'', RStr ''hi'')], [(''sig'', RStr ''ab'')],
             [(''_signed_'', RRef 2), (''_params_'', RRef 3)]] [] (RRef 4)
       = Inr (JObj [(''_signed_'', JObj [(''name'', JStr ''hi'')]),
                    (''_params_'', JObj [(''sig'', JStr ''ab'')])])"
proof -
  let ?h = "[[(''name'', RStr ''hi'')], [(''sig'', RStr ''ab'')]]"
  let ?h' = "[[(''name'', RStr ''hi'')], [(''sig'', RStr ''ab'')],
             [(''name'', RStr ''hi'')], [(''sig'', RStr ''ab'')],
             [(''_signed_'', RRef 2), (''_params_'', RRef 3)]]"
  let ?m = "\<lparr>signed_ref = RRef 0, params_ref = RRef 1, verified_flag = True\<rparr>"
  have s: "reify ?h [] (signed_ref ?m) = Inr (JObj [(''name'', JStr ''hi'')])" by simp
  have p: "reify ?h [] (params_ref ?m) = Inr (JObj [(''sig'', JStr ''ab'')])" by simp
  have a: "payload_in ?h ?m = Inr (RRef 4, ?h')"
    by (simp add: payload_in_def payload_def)
  have "reaches ?h' (RRef 2) 2" by (rule reaches.here) simp
  then have r: "reaches ?h' (RRef 4) 2"
    by (rule reaches.step [where k = "''_signed_''", rotated 2]) simp_all
  show ?thesis
    using payload_snapshot_isolated [OF s p a r, of "[(''name'', RStr ''changed'')]"] a r
    by simp
qed

end
